theory Spec2Isabelle
  imports Main "HOL-Library.Word"
begin

section \<open>constants.h\<close>

text \<open>
  The header consists of object-like macros only. An integer macro is the mathematical
  value of its literal (\<^typ>\<open>int\<close>: a C integer constant of this size has type
  \<open>int\<close> and none of them is near its range), a character macro is a \<^typ>\<open>char\<close>,
  and a string macro is a \<^typ>\<open>string\<close>, the bytes of the literal without the
  terminating NUL.
\<close>

subsection \<open>Game configuration\<close>

definition BOARD_WIDTH :: int where "BOARD_WIDTH = 80"
definition BOARD_HEIGHT :: int where "BOARD_HEIGHT = 25"
definition INITIAL_SPEED :: int where "INITIAL_SPEED = 200"
definition SPEED_ACCEL :: int where "SPEED_ACCEL = 5"
definition INITIAL_LENGTH :: int where "INITIAL_LENGTH = 3"

subsection \<open>Game characters\<close>

definition SNAKE_HEAD :: char where "SNAKE_HEAD = CHR ''O''"
definition SNAKE_BODY :: char where "SNAKE_BODY = CHR ''o''"
definition FOOD_CHAR :: char where "FOOD_CHAR = CHR ''*''"
definition WALL_CHAR :: char where "WALL_CHAR = CHR ''#''"
definition EMPTY_CHAR :: char where "EMPTY_CHAR = CHR '' ''"

subsection \<open>Directions\<close>

definition DIR_UP :: int where "DIR_UP = 0"
definition DIR_DOWN :: int where "DIR_DOWN = 1"
definition DIR_LEFT :: int where "DIR_LEFT = 2"
definition DIR_RIGHT :: int where "DIR_RIGHT = 3"

subsection \<open>Game states\<close>

definition STATE_MENU :: int where "STATE_MENU = 0"
definition STATE_PLAYING :: int where "STATE_PLAYING = 1"
definition STATE_PAUSED :: int where "STATE_PAUSED = 2"
definition STATE_GAME_OVER :: int where "STATE_GAME_OVER = 3"
definition STATE_EXIT :: int where "STATE_EXIT = 4"

subsection \<open>Input keys\<close>

definition KEY_UP :: int where "KEY_UP = 65"
definition KEY_DOWN :: int where "KEY_DOWN = 66"
definition KEY_LEFT :: int where "KEY_LEFT = 68"
definition KEY_RIGHT :: int where "KEY_RIGHT = 67"
definition KEY_SPACE :: int where "KEY_SPACE = 32"
definition KEY_Q :: int where "KEY_Q = 113"
definition KEY_ESC :: int where "KEY_ESC = 27"

subsection \<open>Memory sizes\<close>

definition STACK_SIZE :: int where "STACK_SIZE = 8192"
definition HEAP_SIZE :: int where "HEAP_SIZE = 4096"
definition BUFFER_SIZE :: int where "BUFFER_SIZE = 8192"

subsection \<open>System call numbers (macOS ARM64)\<close>

definition SYS_READ :: int where "SYS_READ = 3"
definition SYS_WRITE :: int where "SYS_WRITE = 4"
definition SYS_NANOSLEEP :: int where "SYS_NANOSLEEP = 240"
definition SYS_IOCTL :: int where "SYS_IOCTL = 54"

subsection \<open>File descriptors\<close>

definition STDIN :: int where "STDIN = 0"
definition STDOUT :: int where "STDOUT = 1"
definition STDERR :: int where "STDERR = 2"

subsection \<open>ANSI colour codes\<close>

text \<open>
  The octal escape \<^verbatim>\<open>\033\<close> of the C literals is the single byte
  \<open>0 * 64 + 3 * 8 + 3 = 27 = 0x1B\<close>.
\<close>

definition COLOR_RESET :: string where "COLOR_RESET = CHR 0x1B # ''[0m''"
definition COLOR_RED :: string where "COLOR_RED = CHR 0x1B # ''[31m''"
definition COLOR_GREEN :: string where "COLOR_GREEN = CHR 0x1B # ''[32m''"
definition COLOR_YELLOW :: string where "COLOR_YELLOW = CHR 0x1B # ''[33m''"
definition COLOR_BLUE :: string where "COLOR_BLUE = CHR 0x1B # ''[34m''"
definition COLOR_MAGENTA :: string where "COLOR_MAGENTA = CHR 0x1B # ''[35m''"
definition COLOR_CYAN :: string where "COLOR_CYAN = CHR 0x1B # ''[36m''"
definition COLOR_WHITE :: string where "COLOR_WHITE = CHR 0x1B # ''[37m''"

section \<open>structures.h\<close>

text \<open>
  The scalar types of the target (ARM64, macOS): \<open>int\<close> is a 32-bit word and
  \<open>long long\<close> a 64-bit word, both read as two's complement (\<^const>\<open>sint\<close>).
  A pointer is either NULL (\<open>None\<close>) or the address of an object; the pointee type
  of the declaration is kept in the name of the synonym.
\<close>

type_synonym c_int = "32 word"
type_synonym c_long_long = "64 word"
type_synonym addr = nat
type_synonym SnakeNode_ptr = "addr option"

subsection \<open>Fixed-size arrays\<close>

text \<open>
  \<^verbatim>\<open>char board[BOARD_HEIGHT][BOARD_WIDTH]\<close>: an array of \<open>BOARD_HEIGHT\<close> arrays of
  \<open>BOARD_WIDTH\<close> characters each, so the first index is the row. The size is part of
  the C type; the model keeps it in the type as well.
\<close>

typedef board_array =
  "{rows :: char list list. map length rows = replicate (nat BOARD_HEIGHT) (nat BOARD_WIDTH)}"
  morphisms board_rows Abs_board_array
proof
  show "replicate (nat BOARD_HEIGHT) (replicate (nat BOARD_WIDTH) EMPTY_CHAR)
    \<in> {rows. map length rows = replicate (nat BOARD_HEIGHT) (nat BOARD_WIDTH)}"
    by simp
qed

text \<open>\<^verbatim>\<open>char buffer[256]\<close>: the dimension is a literal in the declaration.\<close>

typedef char_array_256 = "{bytes :: char list. length bytes = 256}"
  morphisms array_bytes Abs_char_array_256
proof
  show "replicate 256 (CHR 0x00) \<in> {bytes :: char list. length bytes = 256}"
    by simp
qed

subsection \<open>The structures\<close>

text \<open>
  One record per \<^verbatim>\<open>typedef struct\<close>, the fields in the order of the declaration.
  The field \<^verbatim>\<open>length\<close> of \<^verbatim>\<open>InputBuffer\<close> is \<open>length_field\<close> here, since
  \<^const>\<open>length\<close> is the length of a list.
\<close>

record SnakeNode =
  x :: c_int
  y :: c_int
  "next" :: SnakeNode_ptr

record GameState =
  state :: c_int
  score :: c_int
  direction :: c_int
  speed :: c_int
  paused :: c_int
  head :: SnakeNode_ptr
  tail :: SnakeNode_ptr
  snake_length :: c_int
  food_x :: c_int
  food_y :: c_int
  board :: board_array

record InputBuffer =
  buffer :: char_array_256
  length_field :: c_int
  position :: c_int

record GameTimer =
  start_time :: c_long_long
  frame_time :: c_long_long
  target_fps :: c_long_long


section \<open>The memory pool's operations\<close>




section \<open>Reference notions the declarations are compared with\<close>

text \<open>
  The sequences a terminal sends for the four arrow keys: the control sequence
  introducer \<open>ESC [\<close> followed by the final byte of cursor up, down, forward (right)
  and back (left). They are not declared in the headers.
\<close>

definition ansi_arrow_up :: string where "ansi_arrow_up = CHR 0x1B # ''[A''"
definition ansi_arrow_down :: string where "ansi_arrow_down = CHR 0x1B # ''[B''"
definition ansi_arrow_right :: string where "ansi_arrow_right = CHR 0x1B # ''[C''"
definition ansi_arrow_left :: string where "ansi_arrow_left = CHR 0x1B # ''[D''"

text \<open>
  A string that begins with the escape byte \<open>0x1B\<close> followed by \<open>[\<close> and ends with
  the terminator \<open>m\<close>.
\<close>

definition ansi_escape_sequence :: "string \<Rightarrow> bool" where
  "ansi_escape_sequence s = (take 2 s = [CHR 0x1B, CHR ''[''] \<and> last s = CHR ''m'')"

section \<open>Properties of the data structures\<close>

text \<open>
  C4. The snake body is a singly linked list. A \<open>SnakeNode\<close> consists of exactly an
  integer \<open>x\<close>, an integer \<open>y\<close> and one link \<open>next\<close>: the nodes correspond one to one
  to the triples of two 32-bit integers and one pointer, so a node holds nothing else,
  in particular no backward link. A \<open>GameState\<close> holds a \<open>head\<close> and a \<open>tail\<close>
  pointer to such nodes, each stored on its own.
\<close>

theorem SnakeNode_singly_linked:
  fixes h t :: SnakeNode_ptr and g :: GameState
  shows "bij (\<lambda>n :: SnakeNode. (x n, y n, next n) :: c_int \<times> c_int \<times> SnakeNode_ptr)
    \<and> head (g\<lparr>head := h, tail := t\<rparr>) = h
    \<and> tail (g\<lparr>head := h, tail := t\<rparr>) = t"
proof -
  let ?fields = "\<lambda>n :: SnakeNode. (x n, y n, next n)"
  have "inj ?fields"
    by (rule injI) simp
  moreover have "surj ?fields"
  proof (rule surjI)
    fix c :: "c_int \<times> c_int \<times> SnakeNode_ptr"
    show "?fields \<lparr>x = fst c, y = fst (snd c), next = snd (snd c)\<rparr> = c"
      by simp
  qed
  ultimately have "bij ?fields"
    by (rule bijI)
  then show ?thesis
    by simp
qed

text \<open>
  C5. Every \<open>GameState\<close> owns a character grid of fixed size, \<open>BOARD_HEIGHT = 25\<close>
  rows of \<open>BOARD_WIDTH = 80\<close> columns each, and is made up of that grid together with
  its other fields, among them \<open>score\<close>, \<open>direction\<close>, \<open>speed\<close> and the flag
  \<open>paused\<close>.
\<close>

theorem GameState_board_and_fields:
  fixes g :: GameState
  shows "BOARD_HEIGHT = 25 \<and> BOARD_WIDTH = 80
    \<and> length (board_rows (board g)) = 25
    \<and> map length (board_rows (board g)) = replicate 25 80
    \<and> g = \<lparr>state = state g, score = score g, direction = direction g, speed = speed g,
          paused = paused g, head = head g, tail = tail g,
          snake_length = snake_length g, food_x = food_x g, food_y = food_y g,
          board = board g\<rparr>"
proof -
  have dims: "map length (board_rows (board g)) = replicate 25 80"
    using board_rows [of "board g"] by (simp add: BOARD_HEIGHT_def BOARD_WIDTH_def)
  then have "length (map length (board_rows (board g))) = 25"
    by simp
  then have "length (board_rows (board g)) = 25"
    by simp
  with dims show ?thesis
    by (simp add: BOARD_HEIGHT_def BOARD_WIDTH_def)
qed



text \<open>
  C9. The byte buffer of every \<open>InputBuffer\<close> has exactly 256 bytes, which is
  strictly less than \<open>BUFFER_SIZE = 8192\<close>; so no \<open>InputBuffer\<close> has room for
  \<open>BUFFER_SIZE\<close> bytes.
\<close>

theorem InputBuffer_capacity:
  fixes b :: InputBuffer
  shows "length (array_bytes (buffer b)) = 256
    \<and> BUFFER_SIZE = 8192
    \<and> int (length (array_bytes (buffer b))) < BUFFER_SIZE
    \<and> \<not> (\<exists>b' :: InputBuffer. BUFFER_SIZE \<le> int (length (array_bytes (buffer b'))))"
proof -
  have "length (array_bytes (buffer c)) = 256" for c :: InputBuffer
    using array_bytes [of "buffer c"] by simp
  then show ?thesis
    by (simp add: BUFFER_SIZE_def)
qed

section \<open>Properties of the constants\<close>

text \<open>
  C7. The key constants are the byte codes of their keys: \<open>KEY_SPACE = 32\<close> is the
  space character, \<open>KEY_Q = 113\<close> is \<open>q\<close>, \<open>KEY_ESC = 27\<close> is the escape byte, and
  \<open>KEY_UP = 65\<close>, \<open>KEY_DOWN = 66\<close>, \<open>KEY_LEFT = 68\<close>, \<open>KEY_RIGHT = 67\<close> are the
  codes of \<open>A\<close>, \<open>B\<close>, \<open>D\<close>, \<open>C\<close>, the last bytes of the escape sequences of the
  arrow keys.
\<close>

theorem key_codes_are_ascii:
  "KEY_SPACE = 32 \<and> KEY_SPACE = of_char (CHR '' '')
    \<and> KEY_Q = 113 \<and> KEY_Q = of_char (CHR ''q'')
    \<and> KEY_ESC = 27 \<and> KEY_ESC = of_char (CHR 0x1B)
    \<and> KEY_UP = 65 \<and> KEY_UP = of_char (CHR ''A'') \<and> KEY_UP = of_char (last ansi_arrow_up)
    \<and> KEY_DOWN = 66 \<and> KEY_DOWN = of_char (CHR ''B'')
    \<and> KEY_DOWN = of_char (last ansi_arrow_down)
    \<and> KEY_LEFT = 68 \<and> KEY_LEFT = of_char (CHR ''D'')
    \<and> KEY_LEFT = of_char (last ansi_arrow_left)
    \<and> KEY_RIGHT = 67 \<and> KEY_RIGHT = of_char (CHR ''C'')
    \<and> KEY_RIGHT = of_char (last ansi_arrow_right)"
  by (simp add: KEY_SPACE_def KEY_Q_def KEY_ESC_def KEY_UP_def KEY_DOWN_def KEY_LEFT_def
      KEY_RIGHT_def ansi_arrow_up_def ansi_arrow_down_def ansi_arrow_left_def
      ansi_arrow_right_def)

text \<open>
  C8. Each of the eight \<open>COLOR_*\<close> constants is an ANSI escape sequence: it begins
  with the escape byte \<open>0x1B\<close> followed by \<open>[\<close> and ends with \<open>m\<close>.
\<close>

theorem colors_are_ansi_escape_sequences:
  "ansi_escape_sequence COLOR_RESET \<and> ansi_escape_sequence COLOR_RED
    \<and> ansi_escape_sequence COLOR_GREEN \<and> ansi_escape_sequence COLOR_YELLOW
    \<and> ansi_escape_sequence COLOR_BLUE \<and> ansi_escape_sequence COLOR_MAGENTA
    \<and> ansi_escape_sequence COLOR_CYAN \<and> ansi_escape_sequence COLOR_WHITE"
  by (simp add: ansi_escape_sequence_def COLOR_RESET_def COLOR_RED_def COLOR_GREEN_def
      COLOR_YELLOW_def COLOR_BLUE_def COLOR_MAGENTA_def COLOR_CYAN_def COLOR_WHITE_def)

text \<open>
  C10. The four direction constants are 0, 1, 2, 3 and pairwise distinct, and the five
  game-state constants are 0, 1, 2, 3, 4 and pairwise distinct; so any stored value
  \<open>v\<close> is equal to at most one direction constant and to at most one state constant.
\<close>

theorem directions_and_states_distinct:
  fixes v :: int
  shows "[DIR_UP, DIR_DOWN, DIR_LEFT, DIR_RIGHT] = [0, 1, 2, 3]
    \<and> distinct [DIR_UP, DIR_DOWN, DIR_LEFT, DIR_RIGHT]
    \<and> length (filter (\<lambda>d. d = v) [DIR_UP, DIR_DOWN, DIR_LEFT, DIR_RIGHT]) \<le> 1
    \<and> [STATE_MENU, STATE_PLAYING, STATE_PAUSED, STATE_GAME_OVER, STATE_EXIT] = [0, 1, 2, 3, 4]
    \<and> distinct [STATE_MENU, STATE_PLAYING, STATE_PAUSED, STATE_GAME_OVER, STATE_EXIT]
    \<and> length (filter (\<lambda>s. s = v)
        [STATE_MENU, STATE_PLAYING, STATE_PAUSED, STATE_GAME_OVER, STATE_EXIT]) \<le> 1"
  by (simp add: DIR_UP_def DIR_DOWN_def DIR_LEFT_def DIR_RIGHT_def STATE_MENU_def
      STATE_PLAYING_def STATE_PAUSED_def STATE_GAME_OVER_def STATE_EXIT_def)

end
